theory Spec2Isabelle
  imports Complex_Main
begin

section \<open>Python values used by the bot\<close>

text \<open>
  Exceptions of the Python runtime and of the libraries the bot calls are values:
  a function that can raise returns \<open>py_error + 'a\<close>, with \<open>Inl\<close> for the exception.
\<close>

datatype py_error =
    IndexError
  | ValueError string
  | OverflowError
  | IntegrityError
  | OperationalError

text \<open>
  Subscription \<^verbatim>\<open>xs[i]\<close> of a Python list. An index from 0 to \<open>len - 1\<close> selects from the
  front, an index from \<open>-len\<close> to \<open>-1\<close> selects from the back, and every other index raises
  \<^verbatim>\<open>IndexError\<close>.
\<close>

definition py_index :: "'a list \<Rightarrow> int \<Rightarrow> py_error + 'a" where
  "py_index xs i =
     (if 0 \<le> i \<and> i < int (length xs) then Inr (xs ! nat i)
      else if i < 0 \<and> - int (length xs) \<le> i then Inr (xs ! nat (int (length xs) + i))
      else Inl IndexError)"

section \<open>config/settings.py: the configuration object\<close>

text \<open>
  The attributes of \<^verbatim>\<open>Config\<close> that the rate limiter, the ledger and the moderation manager
  read. The attributes \<^verbatim>\<open>rules\<close>, \<^verbatim>\<open>allowed_domains\<close>, \<^verbatim>\<open>banned_words\<close> and \<^verbatim>\<open>db_path\<close>
  are plain strings that no function below reads; they are left out.
\<close>

record Config =
  bot_token :: string
  admin_ids :: "int list"
  antiflood_max_messages :: int
  antiflood_window_seconds :: int
  warns_to_punish :: int
  auto_mute_hours :: int
  escalation_durations :: "int list"
  whitelisted_users :: "int list"
  captcha_timeout_seconds :: int
  notify_admins :: bool
  notification_chat :: "int option"

definition is_admin :: "Config \<Rightarrow> int \<Rightarrow> bool" where
  "is_admin c user_id = (user_id \<in> set (admin_ids c))"

definition is_whitelisted :: "Config \<Rightarrow> int \<Rightarrow> bool" where
  "is_whitelisted c user_id = (user_id \<in> set (whitelisted_users c))"

definition is_exempt_from_rate_limit :: "Config \<Rightarrow> int \<Rightarrow> bool" where
  "is_exempt_from_rate_limit c user_id = (is_admin c user_id \<or> is_whitelisted c user_id)"

text \<open>
  \<^verbatim>\<open>Config.get_mute_duration\<close>. The first branch guards the empty ladder with the built-in
  rung 60; the second branch subscripts the ladder with \<open>min (violation_count - 1) (len - 1)\<close>
  and has no such guard.
\<close>

definition get_mute_duration :: "Config \<Rightarrow> int \<Rightarrow> py_error + int" where
  "get_mute_duration c violation_count =
     (if violation_count \<le> 0 then
        (if escalation_durations c \<noteq> [] then py_index (escalation_durations c) 0 else Inr 60)
      else
        (let index = min (violation_count - 1) (int (length (escalation_durations c)) - 1)
         in py_index (escalation_durations c) index))"

text \<open>The configuration a \<^verbatim>\<open>Config()\<close> holds when only the bot token is set in the environment.\<close>

definition default_config :: Config where
  "default_config =
     \<lparr> bot_token = ''token'',
       admin_ids = [],
       antiflood_max_messages = 5,
       antiflood_window_seconds = 10,
       warns_to_punish = 3,
       auto_mute_hours = 24,
       escalation_durations = [60, 360, 1440, 10080],
       whitelisted_users = [],
       captcha_timeout_seconds = 120,
       notify_admins = True,
       notification_chat = None \<rparr>"

section \<open>src/rate_limiter.py: the sliding-window tracker\<close>

text \<open>
  \<^verbatim>\<open>RateLimiter._message_history\<close> is a \<^verbatim>\<open>defaultdict(list)\<close> from the key
  \<open>(chat_id, user_id)\<close> to the list of message timestamps. A timestamp is a reading of
  \<^verbatim>\<open>time.time()\<close>, a number of seconds, modelled as a real number; every function takes the
  reading it makes as the argument \<open>current_time\<close>. The \<^verbatim>\<open>asyncio.Lock\<close> makes each body one
  atomic step, which is what a function on the state is.
\<close>

record RateLimiter =
  message_history :: "int \<times> int \<rightharpoonup> real list"

text \<open>The value that reading \<^verbatim>\<open>self._message_history[key]\<close> gives: the empty list for a missing key.\<close>

definition history_get :: "(int \<times> int \<rightharpoonup> real list) \<Rightarrow> int \<times> int \<Rightarrow> real list" where
  "history_get h key = (case h key of None \<Rightarrow> [] | Some timestamps \<Rightarrow> timestamps)"

definition check_rate_limit :: "Config \<Rightarrow> real \<Rightarrow> int \<Rightarrow> int \<Rightarrow> RateLimiter \<Rightarrow> bool \<times> RateLimiter" where
  "check_rate_limit c current_time user_id chat_id rl =
     (if is_exempt_from_rate_limit c user_id then (False, rl)
      else
        (let key = (chat_id, user_id);
             cutoff_time = current_time - real_of_int (antiflood_window_seconds c);
             h1 = (message_history rl)
                    (key \<mapsto> filter (\<lambda>timestamp. timestamp > cutoff_time)
                                 (history_get (message_history rl) key));
             h2 = h1(key \<mapsto> history_get h1 key @ [current_time]);
             message_count = int (length (history_get h2 key))
         in (message_count > antiflood_max_messages c, rl\<lparr>message_history := h2\<rparr>)))"

definition add_message :: "Config \<Rightarrow> real \<Rightarrow> int \<Rightarrow> int \<Rightarrow> RateLimiter \<Rightarrow> bool \<times> RateLimiter" where
  "add_message c current_time user_id chat_id rl = check_rate_limit c current_time user_id chat_id rl"

text \<open>
  \<^verbatim>\<open>get_message_count\<close> assigns the pruned list back to \<^verbatim>\<open>self._message_history[key]\<close>, so it
  returns the new state together with the count.
\<close>

definition get_message_count :: "Config \<Rightarrow> real \<Rightarrow> int \<Rightarrow> int \<Rightarrow> RateLimiter \<Rightarrow> int \<times> RateLimiter" where
  "get_message_count c current_time user_id chat_id rl =
     (let key = (chat_id, user_id);
          cutoff_time = current_time - real_of_int (antiflood_window_seconds c);
          h1 = (message_history rl)
                 (key \<mapsto> filter (\<lambda>timestamp. timestamp > cutoff_time)
                              (history_get (message_history rl) key))
      in (int (length (history_get h1 key)), rl\<lparr>message_history := h1\<rparr>))"

definition reset_user_history :: "int \<Rightarrow> int \<Rightarrow> RateLimiter \<Rightarrow> RateLimiter" where
  "reset_user_history user_id chat_id rl =
     (let key = (chat_id, user_id)
      in if key \<in> dom (message_history rl)
         then rl\<lparr>message_history := (message_history rl)(key := None)\<rparr>
         else rl)"

definition cleanup_old_entries :: "Config \<Rightarrow> real \<Rightarrow> RateLimiter \<Rightarrow> RateLimiter" where
  "cleanup_old_entries c current_time rl =
     (let cutoff_time = current_time - real_of_int (antiflood_window_seconds c * 2)
      in rl\<lparr>message_history :=
              (\<lambda>key. case message_history rl key of
                        None \<Rightarrow> None
                      | Some timestamps \<Rightarrow>
                          (let updated_timestamps =
                                 filter (\<lambda>timestamp. timestamp > cutoff_time) timestamps
                           in if updated_timestamps \<noteq> [] then Some updated_timestamps
                              else None))\<rparr>)"

record RateLimiterStats =
  tracked_users :: nat
  total_messages_in_window :: nat

definition get_stats :: "RateLimiter \<Rightarrow> RateLimiterStats" where
  "get_stats rl =
     \<lparr> tracked_users = card (dom (message_history rl)),
       total_messages_in_window =
         (\<Sum>key \<in> dom (message_history rl). length (history_get (message_history rl) key)) \<rparr>"

text \<open>
  A sequence of \<^verbatim>\<open>check_rate_limit\<close> calls for one actor, one call per clock reading in the
  list, as the tests of the repository drive the limiter under a patched \<^verbatim>\<open>time.time\<close>.
  It returns the results in call order and the final state.
\<close>

fun record_calls :: "Config \<Rightarrow> int \<Rightarrow> int \<Rightarrow> real list \<Rightarrow> RateLimiter \<Rightarrow> bool list \<times> RateLimiter" where
  "record_calls c user_id chat_id [] rl = ([], rl)"
| "record_calls c user_id chat_id (t # ts) rl =
     (let (exceeded, rl1) = check_rate_limit c t user_id chat_id rl;
          (rest, rl2) = record_calls c user_id chat_id ts rl1
      in (exceeded # rest, rl2))"

text \<open>
  The specification's count for the call with index \<open>k\<close> (counted from 0): the calls up to
  and including it whose timestamp is still inside the window that ends at that call.
\<close>

definition in_window_count :: "int \<Rightarrow> real list \<Rightarrow> nat \<Rightarrow> nat" where
  "in_window_count window ts k =
     length (filter (\<lambda>t. t > ts ! k - real_of_int window) (take (Suc k) ts))"

text \<open>
  The calls of a sequence that the tracker still holds after the last of them, when the
  history was empty before the first: a call is held as long as no later call has pruned it,
  that is, as long as it is newer than the cutoff of every later call. The last call is
  always held.
\<close>

fun surviving_calls :: "int \<Rightarrow> real list \<Rightarrow> real list" where
  "surviving_calls window [] = []"
| "surviving_calls window (t # ts) =
     (if \<forall>u \<in> set ts. u - real_of_int window < t
      then t # surviving_calls window ts
      else surviving_calls window ts)"

definition empty_rate_limiter :: RateLimiter where
  "empty_rate_limiter = \<lparr> message_history = Map.empty \<rparr>"

section \<open>Dates and times\<close>

text \<open>
  A naive \<^verbatim>\<open>datetime\<close> is the number of microseconds since \<^verbatim>\<open>datetime.min\<close>
  (0001-01-01T00:00:00); \<^verbatim>\<open>datetime.max\<close> is 9999-12-31T23:59:59.999999. A \<^verbatim>\<open>timedelta\<close>
  is a number of microseconds whose whole days lie within \<open>\<plusminus>999999999\<close>. Both constructors
  and the addition raise \<^verbatim>\<open>OverflowError\<close> outside these ranges.

  The ledger stores a timestamp as its \<^verbatim>\<open>isoformat()\<close> text and compares the texts. The text
  has fixed-width, zero-padded fields and a fraction that is either absent (zero microseconds)
  or six digits long, so it determines the datetime and the order of the texts is the order
  of the datetimes: equality and comparison of the stored texts are equality and comparison
  of the microsecond counts.
\<close>

type_synonym datetime = int

definition datetime_max :: datetime where
  "datetime_max = 3652059 * 86400000000 - 1"

definition timedelta :: "int \<Rightarrow> py_error + int" where
  "timedelta microseconds =
     (if - 999999999 * 86400000000 \<le> microseconds \<and> microseconds < 1000000000 * 86400000000
      then Inr microseconds else Inl OverflowError)"

definition datetime_add :: "datetime \<Rightarrow> int \<Rightarrow> py_error + datetime" where
  "datetime_add d delta =
     (if 0 \<le> d + delta \<and> d + delta \<le> datetime_max then Inr (d + delta) else Inl OverflowError)"

text \<open>\<^verbatim>\<open>d - timedelta(days=n)\<close>, \<^verbatim>\<open>d - timedelta(hours=n)\<close> and \<^verbatim>\<open>d + timedelta(minutes=n)\<close>.\<close>

definition minus_days :: "datetime \<Rightarrow> int \<Rightarrow> py_error + datetime" where
  "minus_days d n =
     (case timedelta (n * 86400000000) of
        Inl e \<Rightarrow> Inl e
      | Inr delta \<Rightarrow> datetime_add d (- delta))"

definition minus_hours :: "datetime \<Rightarrow> int \<Rightarrow> py_error + datetime" where
  "minus_hours d n =
     (case timedelta (n * 3600000000) of
        Inl e \<Rightarrow> Inl e
      | Inr delta \<Rightarrow> datetime_add d (- delta))"

definition plus_minutes :: "datetime \<Rightarrow> int \<Rightarrow> py_error + datetime" where
  "plus_minutes d n =
     (case timedelta (n * 60000000) of
        Inl e \<Rightarrow> Inl e
      | Inr delta \<Rightarrow> datetime_add d delta)"

section \<open>src/database.py: the violation ledger\<close>

record UserViolation =
  vid :: "int option"
  user_id :: int
  chat_id :: int
  violation_type :: string
  timestamp :: datetime
  mute_duration_minutes :: int
  is_active :: bool

record UserStats =
  stats_user_id :: int
  stats_chat_id :: int
  total_violations :: int
  last_violation :: "datetime option"
  is_currently_muted :: bool

text \<open>
  The table \<^verbatim>\<open>user_violations\<close> created by \<^verbatim>\<open>Database.initialize\<close>: its rows in insertion
  order, each with its \<^verbatim>\<open>id\<close> (the column \<^verbatim>\<open>INTEGER PRIMARY KEY AUTOINCREMENT\<close>) and the six
  columns that \<^verbatim>\<open>add_violation\<close> writes, and the counter that SQLite keeps for
  \<^verbatim>\<open>AUTOINCREMENT\<close> (the largest id ever given out). The table carries the constraint
  \<^verbatim>\<open>UNIQUE(user_id, chat_id, timestamp)\<close>.
\<close>

record Database =
  user_violations :: "(int \<times> UserViolation) list"
  sqlite_sequence :: int

definition empty_database :: Database where
  "empty_database = \<lparr> user_violations = [], sqlite_sequence = 0 \<rparr>"

text \<open>The id of the next row: one more than the largest id in the table or ever given out.\<close>

definition next_rowid :: "Database \<Rightarrow> int" where
  "next_rowid db = fold max (map fst (user_violations db)) (sqlite_sequence db) + 1"

text \<open>
  An integer that SQLite's 64-bit \<^verbatim>\<open>INTEGER\<close> can hold. The \<^verbatim>\<open>sqlite3\<close> module raises
  \<^verbatim>\<open>OverflowError\<close> when a statement is given an integer parameter outside this range, before
  the statement runs.
\<close>

definition fits_int64 :: "int \<Rightarrow> bool" where
  "fits_int64 i = (- 9223372036854775808 \<le> i \<and> i \<le> 9223372036854775807)"

text \<open>
  \<^verbatim>\<open>add_violation\<close>, which catches nothing. The three integer parameters of the \<^verbatim>\<open>INSERT\<close>
  must fit 64 bits (\<^verbatim>\<open>OverflowError\<close>); an \<^verbatim>\<open>AUTOINCREMENT\<close> table whose largest id is the
  largest 64-bit integer takes no further row (\<^verbatim>\<open>sqlite3.OperationalError\<close>, database full);
  a row with the same user, chat and timestamp violates the \<^verbatim>\<open>UNIQUE\<close> constraint
  (\<^verbatim>\<open>sqlite3.IntegrityError\<close>). Otherwise the row is committed and \<^verbatim>\<open>cursor.lastrowid\<close> is
  returned. The \<^verbatim>\<open>id\<close> attribute of the argument is not written. Failures of the file system
  are outside the model.
\<close>

definition violates_unique :: "Database \<Rightarrow> UserViolation \<Rightarrow> bool" where
  "violates_unique db violation =
     (\<exists>(rowid, row) \<in> set (user_violations db).
         user_id row = user_id violation \<and> chat_id row = chat_id violation \<and>
         timestamp row = timestamp violation)"

definition fits_columns :: "UserViolation \<Rightarrow> bool" where
  "fits_columns violation =
     (fits_int64 (user_id violation) \<and> fits_int64 (chat_id violation) \<and>
      fits_int64 (mute_duration_minutes violation))"

definition add_violation :: "Database \<Rightarrow> UserViolation \<Rightarrow> py_error + (int \<times> Database)" where
  "add_violation db violation =
     (if \<not> fits_columns violation then Inl OverflowError
      else if \<not> fits_int64 (next_rowid db) then Inl OperationalError
      else if violates_unique db violation then Inl IntegrityError
      else
        (let lastrowid = next_rowid db
         in Inr (lastrowid,
                 db\<lparr>user_violations := user_violations db @ [(lastrowid, violation)],
                    sqlite_sequence := lastrowid\<rparr>)))"

text \<open>
  \<^verbatim>\<open>get_user_violation_count\<close>: the \<^verbatim>\<open>WHERE\<close> clause is
  \<^verbatim>\<open>user_id = ? AND chat_id = ? AND timestamp > ?\<close>; it does not mention \<^verbatim>\<open>violation_type\<close>.
\<close>

definition get_user_violation_count :: "Database \<Rightarrow> datetime \<Rightarrow> int \<Rightarrow> int \<Rightarrow> int \<Rightarrow> py_error + int" where
  "get_user_violation_count db utcnow uid cid days_back =
     (case minus_days utcnow days_back of
        Inl e \<Rightarrow> Inl e
      | Inr cutoff_date \<Rightarrow>
          if \<not> (fits_int64 uid \<and> fits_int64 cid) then Inl OverflowError
          else
          Inr (int (length (filter (\<lambda>(rowid, row). user_id row = uid \<and> chat_id row = cid \<and>
                                                   timestamp row > cutoff_date)
                              (user_violations db)))))"

definition get_user_stats :: "Database \<Rightarrow> datetime \<Rightarrow> int \<Rightarrow> int \<Rightarrow> py_error + UserStats" where
  "get_user_stats db utcnow uid cid =
     (if \<not> (fits_int64 uid \<and> fits_int64 cid) then Inl OverflowError
      else
      let mine = filter (\<lambda>(rowid, row). user_id row = uid \<and> chat_id row = cid) (user_violations db);
          total = int (length mine);
          last = (case map (timestamp \<circ> snd) mine of
                    [] \<Rightarrow> None
                  | t # ts \<Rightarrow> Some (fold max ts t))
      in case minus_hours utcnow 24 of
           Inl e \<Rightarrow> Inl e
         | Inr recent_cutoff \<Rightarrow>
             (let active_violations =
                    int (length (filter (\<lambda>(rowid, row). timestamp row > recent_cutoff \<and> is_active row)
                                   mine))
              in Inr \<lparr> stats_user_id = uid,
                       stats_chat_id = cid,
                       total_violations = total,
                       last_violation = last,
                       is_currently_muted = (active_violations > 0) \<rparr>))"

definition deactivate_old_violations :: "Database \<Rightarrow> datetime \<Rightarrow> int \<Rightarrow> py_error + Database" where
  "deactivate_old_violations db utcnow hours_back =
     (case minus_hours utcnow hours_back of
        Inl e \<Rightarrow> Inl e
      | Inr cutoff_date \<Rightarrow>
          Inr (db\<lparr>user_violations :=
                    map (\<lambda>(rowid, row).
                           if timestamp row < cutoff_date \<and> is_active row
                           then (rowid, row\<lparr>is_active := False\<rparr>) else (rowid, row))
                      (user_violations db)\<rparr>))"

definition cleanup_old_data :: "Database \<Rightarrow> datetime \<Rightarrow> int \<Rightarrow> py_error + Database" where
  "cleanup_old_data db utcnow days_to_keep =
     (case minus_days utcnow days_to_keep of
        Inl e \<Rightarrow> Inl e
      | Inr cutoff_date \<Rightarrow>
          Inr (db\<lparr>user_violations :=
                    filter (\<lambda>(rowid, row). \<not> (timestamp row < cutoff_date \<and> \<not> is_active row))
                      (user_violations db)\<rparr>))"

text \<open>
  The ordinal as the specification words it: one plus the number of the actor's records of
  type \<^verbatim>\<open>rate_limit\<close> that are newer than the cutoff.
\<close>

definition spec_rate_limit_ordinal :: "Database \<Rightarrow> datetime \<Rightarrow> int \<Rightarrow> int \<Rightarrow> int" where
  "spec_rate_limit_ordinal db cutoff_date uid cid =
     1 + int (length (filter (\<lambda>(rowid, row). user_id row = uid \<and> chat_id row = cid \<and>
                                              violation_type row = ''rate_limit'' \<and>
                                              timestamp row > cutoff_date)
                         (user_violations db)))"

text \<open>The count the code takes: the actor's records of every type that are newer than the cutoff.\<close>

definition violations_since :: "Database \<Rightarrow> datetime \<Rightarrow> int \<Rightarrow> int \<Rightarrow> int" where
  "violations_since db cutoff_date uid cid =
     int (length (filter (\<lambda>(rowid, row). user_id row = uid \<and> chat_id row = cid \<and>
                                          timestamp row > cutoff_date)
                     (user_violations db)))"

section \<open>src/moderation.py: the moderation manager\<close>

text \<open>
  The Telegram \<^verbatim>\<open>Bot\<close> is outside the repository. The model takes its answers as a parameter:
  each method either returns or raises \<^verbatim>\<open>TelegramError\<close>, and \<open>Inl\<close> carries the text that
  \<^verbatim>\<open>str(e)\<close> gives. The calls made are appended to a log in the system state, which is how
  a mute or a notification is observed. The answer of \<^verbatim>\<open>send_message\<close> is not a parameter:
  the manager catches and logs its failure and goes on in either case.
\<close>

record User =
  username :: "string option"
  first_name :: string

record Bot =
  get_chat_member :: "int \<Rightarrow> int \<Rightarrow> string + User"
  restrict_chat_member :: "int \<Rightarrow> int \<Rightarrow> datetime \<Rightarrow> string + unit"

text \<open>
  The values interpolated into the text of the admin notification; the Markdown text itself
  is not modelled.
\<close>

record Notification =
  note_username :: string
  note_user_id :: int
  note_chat_id :: int
  note_violation_count :: int
  note_duration_minutes :: int

datatype BotCall =
    GetChatMember int int
  | RestrictChatMember int int datetime
  | SendMessage int Notification

text \<open>The dictionary that \<^verbatim>\<open>_apply_mute\<close> returns: \<open>success\<close> with the user name and the end of
  the mute, or failure with the error text and the user name.\<close>

datatype MuteResult =
    MuteSuccess string datetime
  | MuteFailure string string

text \<open>The dictionary that \<^verbatim>\<open>handle_message\<close> returns when it has muted the user.\<close>

record MuteAction =
  res_action :: string
  res_user_id :: int
  res_chat_id :: int
  res_violation_id :: int
  res_violation_count :: int
  res_mute_duration_minutes :: int
  res_username :: string
  res_reason :: string

text \<open>The two dictionaries that \<^verbatim>\<open>manual_mute\<close> returns.\<close>

datatype ManualMuteResult =
    ManualMute int int int int string string
  | ManualMuteFailed string

record UserStatus =
  status_user_id :: int
  status_chat_id :: int
  status_total_violations :: int
  status_last_violation :: "datetime option"
  status_is_currently_muted :: bool
  current_message_count :: int
  is_exempt :: bool
  status_is_admin :: bool
  status_is_whitelisted :: bool

text \<open>
  The clock readings one handler makes: \<^verbatim>\<open>time.time()\<close> in the rate limiter, and
  \<^verbatim>\<open>datetime.utcnow()\<close> for the lookback cutoff, for the timestamp of the new record, for the
  end of the mute and for the 24-hour cutoff of the statistics.
\<close>

record Clock =
  time_now :: real
  utc_lookup :: datetime
  utc_record :: datetime
  utc_mute :: datetime
  utc_stats :: datetime

text \<open>The module-level instances \<^verbatim>\<open>rate_limiter\<close> and \<^verbatim>\<open>db\<close>, and the log of calls to the bot.\<close>

record System =
  rate_limiter :: RateLimiter
  db :: Database
  bot_calls :: "BotCall list"

text \<open>Decimal text of an integer, for the f-string \<^verbatim>\<open>f"User_{user_id}"\<close>.\<close>

fun digits_of :: "nat \<Rightarrow> string" where
  "digits_of n =
     (if n < 10 then [char_of (48 + n)]
      else digits_of (n div 10) @ [char_of (48 + n mod 10)])"

declare digits_of.simps [simp del]

definition py_str_int :: "int \<Rightarrow> string" where
  "py_str_int i = (if i < 0 then CHR ''-'' # digits_of (nat (- i)) else digits_of (nat i))"

text \<open>
  \<^verbatim>\<open>_apply_mute\<close>. The end of the mute is computed first and its \<^verbatim>\<open>OverflowError\<close> is not a
  \<^verbatim>\<open>TelegramError\<close>, so it leaves the function. A failure of \<^verbatim>\<open>get_chat_member\<close> is caught
  and leaves the name \<open>Unknown\<close>; a failure of \<^verbatim>\<open>restrict_chat_member\<close> is caught by the outer
  handler and becomes the failure dictionary. In \<^verbatim>\<open>user.username or user.first_name or ...\<close>
  both \<^verbatim>\<open>None\<close> and the empty string count as false.
\<close>

definition apply_mute :: "Bot \<Rightarrow> datetime \<Rightarrow> int \<Rightarrow> int \<Rightarrow> int \<Rightarrow> BotCall list
                            \<Rightarrow> (py_error + MuteResult) \<times> BotCall list" where
  "apply_mute tg_bot utcnow uid cid duration_minutes calls =
     (case plus_minutes utcnow duration_minutes of
        Inl e \<Rightarrow> (Inl e, calls)
      | Inr until_date \<Rightarrow>
          (let uname =
                 (case get_chat_member tg_bot cid uid of
                    Inl e \<Rightarrow> ''Unknown''
                  | Inr user \<Rightarrow>
                      (let u = (case username user of None \<Rightarrow> [] | Some n \<Rightarrow> n)
                       in if u \<noteq> [] then u
                          else if first_name user \<noteq> [] then first_name user
                          else ''User_'' @ py_str_int uid));
               calls1 = calls @ [GetChatMember cid uid, RestrictChatMember cid uid until_date]
           in case restrict_chat_member tg_bot cid uid until_date of
                Inl e \<Rightarrow> (Inr (MuteFailure e uname), calls1)
              | Inr u \<Rightarrow> (Inr (MuteSuccess uname until_date), calls1)))"

text \<open>
  \<^verbatim>\<open>_notify_admins_of_mute\<close>: nothing is sent unless \<^verbatim>\<open>notify_admins\<close> is set and there are
  admins; the message goes to the notification chat when one is configured (a chat id of 0
  counts as false) and to every admin otherwise.
\<close>

definition notify_admins_of_mute :: "Config \<Rightarrow> int \<Rightarrow> int \<Rightarrow> int \<Rightarrow> int \<Rightarrow> string \<Rightarrow> BotCall list
                                       \<Rightarrow> BotCall list" where
  "notify_admins_of_mute c uid cid violation_count duration_minutes uname calls =
     (if \<not> notify_admins c \<or> admin_ids c = [] then calls
      else
        (let message = \<lparr> note_username = uname, note_user_id = uid, note_chat_id = cid,
                         note_violation_count = violation_count,
                         note_duration_minutes = duration_minutes \<rparr>
         in case notification_chat c of
              Some chat \<Rightarrow>
                (if chat \<noteq> 0 then calls @ [SendMessage chat message]
                 else calls @ map (\<lambda>admin_id. SendMessage admin_id message) (admin_ids c))
            | None \<Rightarrow> calls @ map (\<lambda>admin_id. SendMessage admin_id message) (admin_ids c)))"

text \<open>
  \<^verbatim>\<open>handle_message\<close>. Nothing in it catches an exception, so an error of the ledger, of the
  ladder lookup or of the date arithmetic leaves the function with the state as it is at that
  point. The result \<open>Inr None\<close> is the Python \<^verbatim>\<open>None\<close>; the lines written to the logger are
  not part of the state.
\<close>

definition handle_message :: "Config \<Rightarrow> Bot \<Rightarrow> Clock \<Rightarrow> int \<Rightarrow> int \<Rightarrow> System
                                \<Rightarrow> (py_error + MuteAction option) \<times> System" where
  "handle_message c tg_bot clk uid cid sys =
     (let (rate_limit_exceeded, rl1) = add_message c (time_now clk) uid cid (rate_limiter sys);
          sys1 = sys\<lparr>rate_limiter := rl1\<rparr>
      in if rate_limit_exceeded then
           (case get_user_violation_count (db sys1) (utc_lookup clk) uid cid 30 of
              Inl e \<Rightarrow> (Inl e, sys1)
            | Inr violation_count \<Rightarrow>
                (case get_mute_duration c (violation_count + 1) of
                   Inl e \<Rightarrow> (Inl e, sys1)
                 | Inr duration \<Rightarrow>
                     (let violation = \<lparr> vid = None, user_id = uid, chat_id = cid,
                                         violation_type = ''rate_limit'',
                                         timestamp = utc_record clk,
                                         mute_duration_minutes = duration,
                                         is_active = True \<rparr>
                      in case add_violation (db sys1) violation of
                           Inl e \<Rightarrow> (Inl e, sys1)
                         | Inr (violation_id, db1) \<Rightarrow>
                             (let sys2 = sys1\<lparr>db := db1\<rparr>;
                                  (mute_result, calls1) =
                                     apply_mute tg_bot (utc_mute clk) uid cid duration (bot_calls sys2);
                                  sys3 = sys2\<lparr>bot_calls := calls1\<rparr>
                              in case mute_result of
                                   Inl e \<Rightarrow> (Inl e, sys3)
                                 | Inr (MuteSuccess uname until_date) \<Rightarrow>
                                     (let sys4 = sys3\<lparr>rate_limiter :=
                                                        reset_user_history uid cid (rate_limiter sys3)\<rparr>;
                                          sys5 = sys4\<lparr>bot_calls :=
                                                        notify_admins_of_mute c uid cid
                                                          (violation_count + 1) duration uname
                                                          (bot_calls sys4)\<rparr>
                                      in (Inr (Some \<lparr> res_action = ''mute'',
                                                       res_user_id = uid,
                                                       res_chat_id = cid,
                                                       res_violation_id = violation_id,
                                                       res_violation_count = violation_count + 1,
                                                       res_mute_duration_minutes = duration,
                                                       res_username = uname,
                                                       res_reason = ''Rate limit exceeded'' \<rparr>),
                                          sys5))
                                 | Inr (MuteFailure err uname) \<Rightarrow> (Inr None, sys3)))))
         else (Inr None, sys1))"

text \<open>\<^verbatim>\<open>manual_mute\<close>: the record has type \<^verbatim>\<open>manual\<close> and is written before the mute is tried.\<close>

definition manual_mute :: "Bot \<Rightarrow> Clock \<Rightarrow> int \<Rightarrow> int \<Rightarrow> int \<Rightarrow> string \<Rightarrow> System
                             \<Rightarrow> (py_error + ManualMuteResult) \<times> System" where
  "manual_mute tg_bot clk uid cid duration_minutes reason sys =
     (let violation = \<lparr> vid = None, user_id = uid, chat_id = cid,
                         violation_type = ''manual'',
                         timestamp = utc_record clk,
                         mute_duration_minutes = duration_minutes,
                         is_active = True \<rparr>
      in case add_violation (db sys) violation of
           Inl e \<Rightarrow> (Inl e, sys)
         | Inr (violation_id, db1) \<Rightarrow>
             (let sys1 = sys\<lparr>db := db1\<rparr>;
                  (mute_result, calls1) =
                     apply_mute tg_bot (utc_mute clk) uid cid duration_minutes (bot_calls sys1);
                  sys2 = sys1\<lparr>bot_calls := calls1\<rparr>
              in case mute_result of
                   Inl e \<Rightarrow> (Inl e, sys2)
                 | Inr (MuteSuccess uname until_date) \<Rightarrow>
                     (Inr (ManualMute uid cid violation_id duration_minutes uname reason), sys2)
                 | Inr (MuteFailure err uname) \<Rightarrow> (Inr (ManualMuteFailed err), sys2)))"

text \<open>
  \<^verbatim>\<open>get_user_status\<close>: the statistics are read from the ledger, then
  \<^verbatim>\<open>rate_limiter.get_message_count\<close> is called, which stores the pruned list.
\<close>

definition get_user_status :: "Config \<Rightarrow> Clock \<Rightarrow> int \<Rightarrow> int \<Rightarrow> System
                                 \<Rightarrow> (py_error + UserStatus) \<times> System" where
  "get_user_status c clk uid cid sys =
     (case get_user_stats (db sys) (utc_stats clk) uid cid of
        Inl e \<Rightarrow> (Inl e, sys)
      | Inr stats \<Rightarrow>
          (let (message_count, rl1) = get_message_count c (time_now clk) uid cid (rate_limiter sys)
           in (Inr \<lparr> status_user_id = uid,
                     status_chat_id = cid,
                     status_total_violations = total_violations stats,
                     status_last_violation = last_violation stats,
                     status_is_currently_muted = is_currently_muted stats,
                     current_message_count = message_count,
                     is_exempt = is_exempt_from_rate_limit c uid,
                     status_is_admin = is_admin c uid,
                     status_is_whitelisted = is_whitelisted c uid \<rparr>,
               sys\<lparr>rate_limiter := rl1\<rparr>)))"

subsection \<open>Concrete inputs\<close>

text \<open>A system with no tracked actor, an empty ledger and no call made yet.\<close>

definition empty_system :: System where
  "empty_system = \<lparr> rate_limiter = empty_rate_limiter, db = empty_database, bot_calls = [] \<rparr>"

text \<open>A bot whose calls succeed, and one that lacks the right to restrict members.\<close>

definition bot_ok :: Bot where
  "bot_ok = \<lparr> get_chat_member = (\<lambda>cid uid. Inr \<lparr> username = Some ''alice'', first_name = ''Alice'' \<rparr>),
              restrict_chat_member = (\<lambda>cid uid until_date. Inr ()) \<rparr>"

definition bot_not_admin :: Bot where
  "bot_not_admin =
     \<lparr> get_chat_member = (\<lambda>cid uid. Inr \<lparr> username = Some ''alice'', first_name = ''Alice'' \<rparr>),
       restrict_chat_member = (\<lambda>cid uid until_date. Inl ''Bot not admin'') \<rparr>"

text \<open>Clock readings on 2024-01-01 (63839664000000000 microseconds after \<^verbatim>\<open>datetime.min\<close>).\<close>

definition clock_at :: "real \<Rightarrow> datetime \<Rightarrow> Clock" where
  "clock_at t d = \<lparr> time_now = t, utc_lookup = d, utc_record = d + 1, utc_mute = d + 2,
                    utc_stats = d \<rparr>"


text \<open>A record as \<^verbatim>\<open>handle_message\<close> builds it, for the given actor, timestamp and duration.\<close>

definition rate_limit_violation :: "int \<Rightarrow> int \<Rightarrow> datetime \<Rightarrow> int \<Rightarrow> UserViolation" where
  "rate_limit_violation uid cid t m =
     \<lparr> vid = None, user_id = uid, chat_id = cid, violation_type = ''rate_limit'',
       timestamp = t, mute_duration_minutes = m, is_active = True \<rparr>"

text \<open>The actor's records of another type than \<^verbatim>\<open>rate_limit\<close> that are newer than the cutoff.\<close>

definition other_type_violations_since :: "Database \<Rightarrow> datetime \<Rightarrow> int \<Rightarrow> int \<Rightarrow> int" where
  "other_type_violations_since ledger cutoff_date uid cid =
     int (length (filter (\<lambda>(rowid, row). user_id row = uid \<and> chat_id row = cid \<and>
                                          violation_type row \<noteq> ''rate_limit'' \<and>
                                          timestamp row > cutoff_date)
                     (user_violations ledger)))"

text \<open>The calls to the bot that send a notification.\<close>

fun is_notification :: "BotCall \<Rightarrow> bool" where
  "is_notification (SendMessage chat message) = True"
| "is_notification (GetChatMember cid uid) = False"
| "is_notification (RestrictChatMember cid uid until_date) = False"

text \<open>The tracker after five messages of actor (7, 9) at t = 0, 1, 2, 3, 4, and a system that
  holds it with an empty ledger.\<close>

definition burst_limiter :: RateLimiter where
  "burst_limiter = snd (record_calls default_config 7 9 [0, 1, 2, 3, 4] empty_rate_limiter)"

definition burst_system :: System where
  "burst_system = \<lparr> rate_limiter = burst_limiter, db = empty_database, bot_calls = [] \<rparr>"

text \<open>The system after an admin has muted actor (7, 9) by hand for 60 minutes, about eleven
  minutes before the burst.\<close>

definition manual_system :: System where
  "manual_system =
     snd (manual_mute bot_ok (clock_at 0 63839000000000000) 7 9 60 ''Manual mute'' burst_system)"

section \<open>config/settings.py: constructing the configuration\<close>















section \<open>Escalation policy\<close>

lemma py_index_in_range:
  "0 \<le> i \<Longrightarrow> i < int (length xs) \<Longrightarrow> py_index xs i = Inr (xs ! nat i)"
  by (simp add: py_index_def)

lemma py_index_first: "xs \<noteq> [] \<Longrightarrow> py_index xs 0 = Inr (hd xs)"
  by (cases xs) (simp_all add: py_index_def)

lemma get_mute_duration_nonpos:
  "escalation_durations c \<noteq> [] \<Longrightarrow> n \<le> 0 \<Longrightarrow>
   get_mute_duration c n = Inr (hd (escalation_durations c))"
  by (simp add: get_mute_duration_def py_index_first)

lemma get_mute_duration_inside:
  assumes "1 \<le> n" and "n \<le> int (length (escalation_durations c))"
  shows "get_mute_duration c n = Inr (escalation_durations c ! nat (n - 1))"
proof -
  have "min (n - 1) (int (length (escalation_durations c)) - 1) = n - 1"
    using assms by simp
  moreover have "py_index (escalation_durations c) (n - 1) = Inr (escalation_durations c ! nat (n - 1))"
    using assms by (intro py_index_in_range) simp_all
  ultimately show ?thesis
    using assms by (simp add: get_mute_duration_def)
qed

lemma get_mute_duration_beyond:
  assumes "escalation_durations c \<noteq> []" and "int (length (escalation_durations c)) < n"
  shows "get_mute_duration c n = Inr (last (escalation_durations c))"
proof -
  let ?xs = "escalation_durations c"
  have len: "0 < length ?xs" using assms(1) by simp
  have "min (n - 1) (int (length ?xs) - 1) = int (length ?xs) - 1"
    using assms by simp
  moreover have "py_index ?xs (int (length ?xs) - 1) = Inr (?xs ! nat (int (length ?xs) - 1))"
    using len by (intro py_index_in_range) simp_all
  moreover have "nat (int (length ?xs) - 1) = length ?xs - 1"
    by simp
  moreover have "0 < n" using assms(2) by simp
  ultimately show ?thesis
    using assms(1) by (simp add: get_mute_duration_def last_conv_nth)
qed

lemma get_mute_duration_rung:
  assumes "escalation_durations c \<noteq> []"
  shows "get_mute_duration c n =
           Inr (if n \<le> 0 then hd (escalation_durations c)
                else if n \<le> int (length (escalation_durations c))
                     then escalation_durations c ! nat (n - 1)
                     else last (escalation_durations c))"
proof (cases "n \<le> 0")
  case True
  then show ?thesis using assms by (simp add: get_mute_duration_nonpos)
next
  case False
  then have pos: "1 \<le> n" by simp
  show ?thesis
  proof (cases "n \<le> int (length (escalation_durations c))")
    case True
    then show ?thesis using pos False by (simp add: get_mute_duration_inside)
  next
    case False
    then show ?thesis using pos assms by (simp add: get_mute_duration_beyond)
  qed
qed

text \<open>
  C5. For a non-empty ladder \<^verbatim>\<open>get_mute_duration\<close> returns (never raises) the first rung for
  an ordinal \<open>\<le> 0\<close>, the ordinal-th rung for an ordinal between 1 and the length of the
  ladder, and the last rung for every larger ordinal.
\<close>

theorem get_mute_duration_clamps:
  assumes "escalation_durations c \<noteq> []"
  shows "get_mute_duration c n =
           Inr (if n \<le> 0 then hd (escalation_durations c)
                else if n \<le> int (length (escalation_durations c))
                     then escalation_durations c ! nat (n - 1)
                     else last (escalation_durations c))"
  using assms by (rule get_mute_duration_rung)

text \<open>
  Scenario C as the witness: on the ladder 60, 360, 1440, 10080 the ordinals 1 to 5 (and 0)
  give 60, 360, 1440, 10080, 10080 (and 60).
\<close>

theorem get_mute_duration_clamps_witness:
  "escalation_durations default_config \<noteq> [] \<and>
   get_mute_duration default_config 0 = Inr 60 \<and>
   get_mute_duration default_config 1 = Inr 60 \<and>
   get_mute_duration default_config 2 = Inr 360 \<and>
   get_mute_duration default_config 3 = Inr 1440 \<and>
   get_mute_duration default_config 4 = Inr 10080 \<and>
   get_mute_duration default_config 5 = Inr 10080"
proof -
  have ne: "escalation_durations default_config \<noteq> []"
    by (simp add: default_config_def)
  show ?thesis
    using ne get_mute_duration_clamps [OF ne, of 0] get_mute_duration_clamps [OF ne, of 1]
      get_mute_duration_clamps [OF ne, of 2] get_mute_duration_clamps [OF ne, of 3]
      get_mute_duration_clamps [OF ne, of 4] get_mute_duration_clamps [OF ne, of 5]
    by (simp add: default_config_def)
qed



section \<open>Sliding window\<close>

lemma check_rate_limit_step:
  assumes "\<not> is_exempt_from_rate_limit c uid"
  shows "history_get (message_history (snd (check_rate_limit c t uid cid rl))) (cid, uid)
           = filter (\<lambda>x. x > t - real_of_int (antiflood_window_seconds c))
               (history_get (message_history rl) (cid, uid)) @ [t]"
    and "fst (check_rate_limit c t uid cid rl)
           = (antiflood_max_messages c
                < int (length (filter (\<lambda>x. x > t - real_of_int (antiflood_window_seconds c))
                                 (history_get (message_history rl) (cid, uid)) @ [t])))"
  using assms by (simp_all add: check_rate_limit_def history_get_def Let_def)

lemma filter_filter_weaker:
  "(\<And>x. P x \<Longrightarrow> Q x) \<Longrightarrow> filter P (filter Q xs) = filter P xs"
  by (induction xs) auto

lemma record_calls_nth:
  assumes "\<not> is_exempt_from_rate_limit c uid"
      and "0 < antiflood_window_seconds c"
      and "sorted ts"
      and "k < length ts"
  shows "fst (record_calls c uid cid ts rl) ! k
           = (antiflood_max_messages c
                < int (length (filter (\<lambda>x. x > ts ! k - real_of_int (antiflood_window_seconds c))
                                 (history_get (message_history rl) (cid, uid) @ take (Suc k) ts))))"
  using assms(3,4)
proof (induction ts arbitrary: rl k)
  case Nil
  then show ?case by simp
next
  case (Cons t ts)
  let ?W = "real_of_int (antiflood_window_seconds c)"
  let ?hs = "history_get (message_history rl) (cid, uid)"
  obtain b rl1 where step: "check_rate_limit c t uid cid rl = (b, rl1)"
    by (cases "check_rate_limit c t uid cid rl")
  have b: "b = (antiflood_max_messages c < int (length (filter (\<lambda>x. x > t - ?W) ?hs @ [t])))"
    using check_rate_limit_step(2) [OF assms(1), of t cid rl] step by simp
  have hs1: "history_get (message_history rl1) (cid, uid) = filter (\<lambda>x. x > t - ?W) ?hs @ [t]"
    using check_rate_limit_step(1) [OF assms(1), of t cid rl] step by simp
  show ?case
  proof (cases k)
    case 0
    have "t > t - ?W" using assms(2) by simp
    then show ?thesis using 0 b step by (simp add: Let_def split: prod.splits)
  next
    case (Suc k')
    have k': "k' < length ts" using Cons.prems(2) Suc by simp
    have sorted_ts: "sorted ts" using Cons.prems(1) by simp
    have le: "t \<le> ts ! k'" using Cons.prems(1) k' by simp
    let ?P = "\<lambda>x. x > ts ! k' - ?W"
    have IH: "fst (record_calls c uid cid ts rl1) ! k'
                = (antiflood_max_messages c
                     < int (length (filter ?P
                              (history_get (message_history rl1) (cid, uid) @ take (Suc k') ts))))"
      using Cons.IH [OF sorted_ts k'] .
    have "filter ?P (filter (\<lambda>x. x > t - ?W) ?hs) = filter ?P ?hs"
      using le by (intro filter_filter_weaker) simp
    then have "filter ?P (history_get (message_history rl1) (cid, uid) @ take (Suc k') ts)
                 = filter ?P (?hs @ take (Suc k) (t # ts))"
      using Suc hs1 by simp
    moreover have "fst (record_calls c uid cid (t # ts) rl) ! k
                     = fst (record_calls c uid cid ts rl1) ! k'"
      using Suc step by (simp add: Let_def split: prod.splits)
    ultimately show ?thesis using IH Suc by simp
  qed
qed

lemma record_calls_in_clock_order:
  assumes "\<not> is_exempt_from_rate_limit c uid"
      and "0 < antiflood_window_seconds c"
      and "sorted ts"
      and "history_get (message_history rl) (cid, uid) = []"
      and "k < length ts"
  shows "(fst (record_calls c uid cid ts rl) ! k
            \<longleftrightarrow> antiflood_max_messages c < int (in_window_count (antiflood_window_seconds c) ts k))
       \<and> (fst (record_calls c uid cid ts rl) ! k \<longrightarrow> antiflood_max_messages c < int (Suc k))
       \<and> (ts ! k - real_of_int (antiflood_window_seconds c) < ts ! 0 \<longrightarrow>
            (fst (record_calls c uid cid ts rl) ! k \<longleftrightarrow> antiflood_max_messages c < int (Suc k)))"
proof -
  let ?W = "real_of_int (antiflood_window_seconds c)"
  let ?res = "fst (record_calls c uid cid ts rl) ! k"
  have main: "?res \<longleftrightarrow> antiflood_max_messages c < int (in_window_count (antiflood_window_seconds c) ts k)"
    using record_calls_nth [OF assms(1,2,3,5), of cid rl] assms(4)
    by (simp add: in_window_count_def)
  have "in_window_count (antiflood_window_seconds c) ts k \<le> length (take (Suc k) ts)"
    unfolding in_window_count_def by (rule length_filter_le)
  then have bound: "in_window_count (antiflood_window_seconds c) ts k \<le> Suc k"
    using assms(5) by simp
  have upper: "?res \<longrightarrow> antiflood_max_messages c < int (Suc k)"
    using main bound by linarith
  have burst: "?res \<longleftrightarrow> antiflood_max_messages c < int (Suc k)"
    if first: "ts ! k - ?W < ts ! 0"
  proof -
    have "\<forall>x \<in> set (take (Suc k) ts). ts ! k - ?W < x"
    proof
      fix x assume "x \<in> set (take (Suc k) ts)"
      then obtain i where i: "i < length (take (Suc k) ts)" "x = take (Suc k) ts ! i"
        by (auto simp: in_set_conv_nth)
      then have "i < length ts" "x = ts ! i" by simp_all
      then have "ts ! 0 \<le> x" using assms(3) by (simp add: sorted_nth_mono)
      then show "ts ! k - ?W < x" using first by linarith
    qed
    then have "filter (\<lambda>t. t > ts ! k - ?W) (take (Suc k) ts) = take (Suc k) ts"
      by (simp add: filter_id_conv)
    then have "in_window_count (antiflood_window_seconds c) ts k = Suc k"
      using assms(5) by (simp add: in_window_count_def)
    then show ?thesis using main by simp
  qed
  show ?thesis using main upper burst by blast
qed

lemma record_calls_held:
  assumes "\<not> is_exempt_from_rate_limit c uid"
      and "k < length ts"
  shows "fst (record_calls c uid cid ts rl) ! k
           = (antiflood_max_messages c
                < int (length
                        (filter (\<lambda>h. \<forall>u \<in> set (take (Suc k) ts).
                                       u - real_of_int (antiflood_window_seconds c) < h)
                           (history_get (message_history rl) (cid, uid))
                         @ surviving_calls (antiflood_window_seconds c) (take (Suc k) ts))))"
  using assms(2)
proof (induction ts arbitrary: rl k)
  case Nil
  then show ?case by simp
next
  case (Cons t ts)
  let ?W = "real_of_int (antiflood_window_seconds c)"
  let ?hs = "history_get (message_history rl) (cid, uid)"
  obtain b rl1 where step: "check_rate_limit c t uid cid rl = (b, rl1)"
    by (cases "check_rate_limit c t uid cid rl")
  have b: "b = (antiflood_max_messages c < int (length (filter (\<lambda>x. x > t - ?W) ?hs @ [t])))"
    using check_rate_limit_step(2) [OF assms(1), of t cid rl] step by simp
  have hs1: "history_get (message_history rl1) (cid, uid) = filter (\<lambda>x. x > t - ?W) ?hs @ [t]"
    using check_rate_limit_step(1) [OF assms(1), of t cid rl] step by simp
  show ?case
  proof (cases k)
    case 0
    then show ?thesis using b step by (simp add: Let_def split: prod.splits)
  next
    case (Suc k')
    have k': "k' < length ts" using Cons.prems Suc by simp
    let ?Q = "\<lambda>h. \<forall>u \<in> set (take (Suc k') ts). u - ?W < h"
    have IH: "fst (record_calls c uid cid ts rl1) ! k'
                = (antiflood_max_messages c
                     < int (length (filter ?Q (history_get (message_history rl1) (cid, uid))
                                    @ surviving_calls (antiflood_window_seconds c)
                                        (take (Suc k') ts))))"
      using Cons.IH [OF k'] .
    have "filter ?Q (filter (\<lambda>x. x > t - ?W) ?hs)
            = filter (\<lambda>h. \<forall>u \<in> set (take (Suc k) (t # ts)). u - ?W < h) ?hs"
      using Suc by (auto intro: filter_cong)
    then have "length (filter ?Q (history_get (message_history rl1) (cid, uid))
                       @ surviving_calls (antiflood_window_seconds c) (take (Suc k') ts))
                 = length (filter (\<lambda>h. \<forall>u \<in> set (take (Suc k) (t # ts)). u - ?W < h) ?hs
                           @ surviving_calls (antiflood_window_seconds c) (take (Suc k) (t # ts)))"
      using Suc hs1 by simp
    moreover have "fst (record_calls c uid cid (t # ts) rl) ! k
                     = fst (record_calls c uid cid ts rl1) ! k'"
      using Suc step by (simp add: Let_def split: prod.splits)
    ultimately show ?thesis using IH by simp
  qed
qed

lemma surviving_calls_length: "length (surviving_calls window ts) \<le> length ts"
  by (induction ts) (auto simp: le_SucI)

text \<open>
  C2, as the code has it. For a non-exempt actor whose history is empty, the call with index
  \<open>k\<close> (the \<open>k + 1\<close>-th call) returns \<open>exceeded = True\<close> exactly when the number of calls the
  tracker then holds exceeds the threshold: the call itself, which is always counted, and
  every earlier call that no call since has pruned. No call before call number \<open>M + 1\<close>
  returns \<open>True\<close>. When the window is positive and the calls are made in clock order, the
  calls held are the calls up to and including the \<open>k + 1\<close>-th that are still inside its
  window, and if the first call is among them the \<open>k + 1\<close>-th call returns \<open>True\<close> exactly
  when \<open>k + 1 > M\<close>.
\<close>

theorem check_rate_limit_exceeded_iff:
  assumes "\<not> is_exempt_from_rate_limit c uid"
      and "history_get (message_history rl) (cid, uid) = []"
      and "k < length ts"
  shows "(fst (record_calls c uid cid ts rl) ! k
            \<longleftrightarrow> antiflood_max_messages c
                  < int (length (surviving_calls (antiflood_window_seconds c) (take (Suc k) ts))))
       \<and> (fst (record_calls c uid cid ts rl) ! k \<longrightarrow> antiflood_max_messages c < int (Suc k))
       \<and> (sorted ts \<and> 0 < antiflood_window_seconds c \<longrightarrow>
            (fst (record_calls c uid cid ts rl) ! k
               \<longleftrightarrow> antiflood_max_messages c < int (in_window_count (antiflood_window_seconds c) ts k))
            \<and> (ts ! k - real_of_int (antiflood_window_seconds c) < ts ! 0 \<longrightarrow>
                 (fst (record_calls c uid cid ts rl) ! k
                    \<longleftrightarrow> antiflood_max_messages c < int (Suc k))))"
proof -
  let ?res = "fst (record_calls c uid cid ts rl) ! k"
  let ?held = "surviving_calls (antiflood_window_seconds c) (take (Suc k) ts)"
  have main: "?res \<longleftrightarrow> antiflood_max_messages c < int (length ?held)"
    using record_calls_held [OF assms(1,3), of cid rl] assms(2) by simp
  have "length ?held \<le> length (take (Suc k) ts)"
    by (rule surviving_calls_length)
  then have "length ?held \<le> Suc k"
    using assms(3) by simp
  then have upper: "?res \<longrightarrow> antiflood_max_messages c < int (Suc k)"
    using main by linarith
  have ordered: "(?res \<longleftrightarrow> antiflood_max_messages c
                              < int (in_window_count (antiflood_window_seconds c) ts k))
               \<and> (ts ! k - real_of_int (antiflood_window_seconds c) < ts ! 0 \<longrightarrow>
                    (?res \<longleftrightarrow> antiflood_max_messages c < int (Suc k)))"
    if "sorted ts" and "0 < antiflood_window_seconds c"
    using record_calls_in_clock_order [OF assms(1) that(2) that(1) assms(2,3)] by blast
  show ?thesis using main upper ordered by blast
qed

text \<open>
  Scenario A as the witness: window 10 s, threshold 5, calls at t = 0, 1, 2, 3, 4, 5 for
  actor (7, 9); the sixth call is the first that returns \<open>True\<close>.
\<close>

theorem check_rate_limit_exceeded_iff_witness:
  "\<not> is_exempt_from_rate_limit default_config 7 \<and>
   0 < antiflood_window_seconds default_config \<and>
   sorted [0, 1, 2, 3, 4, 5 :: real] \<and>
   history_get (message_history empty_rate_limiter) (9, 7) = [] \<and>
   fst (record_calls default_config 7 9 [0, 1, 2, 3, 4, 5] empty_rate_limiter) ! 5 \<and>
   \<not> fst (record_calls default_config 7 9 [0, 1, 2, 3, 4, 5] empty_rate_limiter) ! 4"
proof -
  have h1: "\<not> is_exempt_from_rate_limit default_config 7"
    by (simp add: is_exempt_from_rate_limit_def is_admin_def is_whitelisted_def default_config_def)
  have h2: "0 < antiflood_window_seconds default_config"
    by (simp add: default_config_def)
  have h3: "sorted [0, 1, 2, 3, 4, 5 :: real]"
    by simp
  have h4: "history_get (message_history empty_rate_limiter) (9, 7) = []"
    by (simp add: history_get_def empty_rate_limiter_def)
  have w: "antiflood_window_seconds default_config = 10" "antiflood_max_messages default_config = 5"
    by (simp_all add: default_config_def)
  have k5: "5 < length [0, 1, 2, 3, 4, 5 :: real]" and k4: "4 < length [0, 1, 2, 3, 4, 5 :: real]"
    by simp_all
  have c5: "in_window_count 10 [0, 1, 2, 3, 4, 5] 5 = 6"
    and c4: "in_window_count 10 [0, 1, 2, 3, 4, 5] 4 = 5"
    by (simp_all add: in_window_count_def)
  note at5 = check_rate_limit_exceeded_iff [OF h1 h4 k5, THEN conjunct2, THEN conjunct2]
  note at4 = check_rate_limit_exceeded_iff [OF h1 h4 k4, THEN conjunct2, THEN conjunct2]
  have "fst (record_calls default_config 7 9 [0, 1, 2, 3, 4, 5] empty_rate_limiter) ! 5"
    using at5 h2 h3 unfolding w c5 by simp
  moreover have "\<not> fst (record_calls default_config 7 9 [0, 1, 2, 3, 4, 5] empty_rate_limiter) ! 4"
    using at4 h2 h3 unfolding w c4 by simp
  ultimately show ?thesis using h1 h2 h3 h4 by blast
qed

text \<open>
  The claim as stated fails without a positive window and without clock order. With window 0
  and threshold 0 the first call returns \<open>True\<close> although no call is inside the window
  \<open>t > now - 0\<close>. With window 10, threshold 2 and clock readings 0, 20, 5 (the clock is set
  back before the third call) the third call returns \<open>False\<close> although all three calls are
  newer than its cutoff: the second call has pruned the first.
\<close>

theorem check_rate_limit_window_count_differs:
  "fst (record_calls (default_config\<lparr>antiflood_max_messages := 0, antiflood_window_seconds := 0\<rparr>)
          7 9 [0] empty_rate_limiter) = [True] \<and>
   in_window_count 0 [0] 0 = 0 \<and>
   fst (record_calls (default_config\<lparr>antiflood_max_messages := 2\<rparr>) 7 9 [0, 20, 5]
          empty_rate_limiter) = [False, False, False] \<and>
   in_window_count 10 [0, 20, 5] 2 = 3"
  by (simp add: check_rate_limit_def history_get_def Let_def empty_rate_limiter_def
        is_exempt_from_rate_limit_def is_admin_def is_whitelisted_def default_config_def
        in_window_count_def)

lemma scenario_A:
  "fst (record_calls default_config 7 9 [0, 1, 2, 3, 4, 5] empty_rate_limiter)
     = [False, False, False, False, False, True]"
  by (simp add: check_rate_limit_def history_get_def Let_def empty_rate_limiter_def
        is_exempt_from_rate_limit_def is_admin_def is_whitelisted_def default_config_def)

lemma scenario_B:
  "fst (record_calls default_config 7 9 [0, 0, 0, 0, 0, 11] empty_rate_limiter)
     = [False, False, False, False, False, False] \<and>
   fst (get_message_count default_config 11 7 9
          (snd (record_calls default_config 7 9 [0, 0, 0, 0, 0, 11] empty_rate_limiter))) = 1"
  by (simp add: check_rate_limit_def get_message_count_def history_get_def Let_def
        empty_rate_limiter_def is_exempt_from_rate_limit_def is_admin_def is_whitelisted_def
        default_config_def)

section \<open>Exempt actors\<close>

text \<open>
  C10. For an exempt actor (an admin or a whitelisted user) every \<^verbatim>\<open>check_rate_limit\<close> call
  returns \<open>False\<close> and returns the tracker state it was given; so does any sequence of calls.
\<close>

theorem check_rate_limit_exempt:
  assumes "is_exempt_from_rate_limit c uid"
  shows "check_rate_limit c t uid cid rl = (False, rl) \<and>
         record_calls c uid cid ts rl = (replicate (length ts) False, rl)"
proof -
  have one: "check_rate_limit c t' uid cid rl' = (False, rl')" for t' rl'
    using assms by (simp add: check_rate_limit_def)
  have "record_calls c uid cid ts rl = (replicate (length ts) False, rl)"
    by (induction ts) (simp_all add: one)
  then show ?thesis using one by simp
qed

text \<open>
  Scenario D as the witness: 20 calls at the same instant by an admin all return \<open>False\<close>, and
  the actor still has no entry in the tracker.
\<close>

theorem check_rate_limit_exempt_witness:
  "is_exempt_from_rate_limit (default_config\<lparr>admin_ids := [7]\<rparr>) 7 \<and>
   record_calls (default_config\<lparr>admin_ids := [7]\<rparr>) 7 9 (replicate 20 0) empty_rate_limiter
     = (replicate 20 False, empty_rate_limiter) \<and>
   message_history empty_rate_limiter (9, 7) = None"
proof -
  have ex: "is_exempt_from_rate_limit (default_config\<lparr>admin_ids := [7]\<rparr>) 7"
    by (simp add: is_exempt_from_rate_limit_def is_admin_def)
  show ?thesis
    using ex check_rate_limit_exempt [OF ex, of 0 9 empty_rate_limiter "replicate 20 0"]
    by (simp add: empty_rate_limiter_def)
qed

section \<open>Appending to the ledger\<close>








section \<open>Handling a message\<close>

lemma default_not_exempt: "\<not> is_exempt_from_rate_limit default_config u"
  by (simp add: is_exempt_from_rate_limit_def is_admin_def is_whitelisted_def default_config_def)

lemma burst_limiter_eq:
  "burst_limiter = \<lparr> message_history = [(9, 7) \<mapsto> [0, 1, 2, 3, 4]] \<rparr>"
  by (simp add: burst_limiter_def check_rate_limit_def history_get_def Let_def
        empty_rate_limiter_def default_not_exempt)
     (simp add: default_config_def)

lemma add_message_burst:
  "add_message default_config 5 7 9 burst_limiter
     = (True, \<lparr> message_history = [(9, 7) \<mapsto> [0, 1, 2, 3, 4, 5]] \<rparr>)"
  by (simp add: add_message_def burst_limiter_eq check_rate_limit_def history_get_def Let_def
        default_not_exempt)
     (simp add: default_config_def)

lemma add_message_first:
  "add_message default_config 5 7 9 empty_rate_limiter
     = (False, \<lparr> message_history = [(9, 7) \<mapsto> [5]] \<rparr>)"
  by (simp add: add_message_def empty_rate_limiter_def check_rate_limit_def history_get_def Let_def
        default_not_exempt)
     (simp add: default_config_def)

lemma add_message_exceeded_appends:
  assumes "add_message c t uid cid rl = (True, rl1)"
  shows "history_get (message_history rl1) (cid, uid)
           = filter (\<lambda>x. x > t - real_of_int (antiflood_window_seconds c))
               (history_get (message_history rl) (cid, uid)) @ [t]"
proof -
  have ne: "\<not> is_exempt_from_rate_limit c uid"
    using assms by (auto simp: add_message_def check_rate_limit_def)
  show ?thesis
    using check_rate_limit_step(1) [OF ne, of t cid rl] assms by (simp add: add_message_def)
qed

lemma apply_mute_calls:
  "filter is_notification (snd (apply_mute tg utcnow uid cid duration calls))
     = filter is_notification calls"
  by (simp add: apply_mute_def Let_def split: sum.splits)

text \<open>
  C4, as the code has it. When the limit is exceeded, the record is appended and the mute then
  fails, \<^verbatim>\<open>handle_message\<close> keeps the tracker as \<^verbatim>\<open>add_message\<close> left it (the triggering
  timestamp is still the last entry of the actor), sends no notification, keeps the appended
  record in the ledger, and returns \<^verbatim>\<open>None\<close>.
\<close>

theorem handle_message_mute_failure:
  assumes "add_message c (time_now clk) uid cid (rate_limiter sys) = (True, rl1)"
      and "get_user_violation_count (db sys) (utc_lookup clk) uid cid 30 = Inr n"
      and "get_mute_duration c (n + 1) = Inr duration"
      and "add_violation (db sys) (rate_limit_violation uid cid (utc_record clk) duration)
             = Inr (violation_id, db1)"
      and "apply_mute tg (utc_mute clk) uid cid duration (bot_calls sys)
             = (Inr (MuteFailure err uname), calls1)"
  shows "handle_message c tg clk uid cid sys
           = (Inr None, \<lparr> rate_limiter = rl1, db = db1, bot_calls = calls1 \<rparr>)
       \<and> last (history_get (message_history rl1) (cid, uid)) = time_now clk
       \<and> (violation_id, rate_limit_violation uid cid (utc_record clk) duration)
            \<in> set (user_violations db1)
       \<and> filter is_notification calls1 = filter is_notification (bot_calls sys)"
proof -
  have run: "handle_message c tg clk uid cid sys
               = (Inr None, \<lparr> rate_limiter = rl1, db = db1, bot_calls = calls1 \<rparr>)"
    using assms by (simp add: handle_message_def rate_limit_violation_def)
  have kept: "last (history_get (message_history rl1) (cid, uid)) = time_now clk"
    using add_message_exceeded_appends [OF assms(1)] by simp
  have "db1 = (db sys)\<lparr>user_violations := user_violations (db sys)
                       @ [(violation_id, rate_limit_violation uid cid (utc_record clk) duration)],
                     sqlite_sequence := violation_id\<rparr>"
    using assms(4) by (auto simp: add_violation_def Let_def split: if_splits)
  then have stored: "(violation_id, rate_limit_violation uid cid (utc_record clk) duration)
                       \<in> set (user_violations db1)"
    by simp
  have quiet: "filter is_notification calls1 = filter is_notification (bot_calls sys)"
    using apply_mute_calls [of tg "utc_mute clk" uid cid duration "bot_calls sys"] assms(5)
    by simp
  show ?thesis using run kept stored quiet by blast
qed

lemma count_empty:
  "get_user_violation_count empty_database 63839664000000000 7 9 30 = Inr 0"
  by (simp add: get_user_violation_count_def minus_days_def timedelta_def datetime_add_def
        datetime_max_def empty_database_def fits_int64_def)

lemma first_rung: "get_mute_duration default_config (0 + 1) = Inr 60"
  by (simp add: get_mute_duration_def py_index_def default_config_def)

lemma add_first_record:
  "add_violation empty_database (rate_limit_violation 7 9 63839664000000001 60)
     = Inr (1, \<lparr> user_violations = [(1, rate_limit_violation 7 9 63839664000000001 60)],
                 sqlite_sequence = 1 \<rparr>)"
  by (simp add: add_violation_def violates_unique_def next_rowid_def empty_database_def
        fits_columns_def fits_int64_def rate_limit_violation_def)

lemma mute_refused:
  "apply_mute bot_not_admin 63839664000000002 7 9 60 []
     = (Inr (MuteFailure ''Bot not admin'' ''alice''),
        [GetChatMember 9 7, RestrictChatMember 9 7 63839667600000002])"
  by (simp add: apply_mute_def plus_minutes_def timedelta_def datetime_add_def datetime_max_def
        bot_not_admin_def)

theorem handle_message_mute_failure_witness:
  "add_message default_config 5 7 9 burst_limiter
     = (True, \<lparr> message_history = [(9, 7) \<mapsto> [0, 1, 2, 3, 4, 5]] \<rparr>) \<and>
   get_user_violation_count empty_database 63839664000000000 7 9 30 = Inr 0 \<and>
   get_mute_duration default_config (0 + 1) = Inr 60 \<and>
   add_violation empty_database (rate_limit_violation 7 9 63839664000000001 60)
     = Inr (1, \<lparr> user_violations = [(1, rate_limit_violation 7 9 63839664000000001 60)],
                 sqlite_sequence = 1 \<rparr>) \<and>
   apply_mute bot_not_admin 63839664000000002 7 9 60 []
     = (Inr (MuteFailure ''Bot not admin'' ''alice''),
        [GetChatMember 9 7, RestrictChatMember 9 7 63839667600000002]) \<and>
   handle_message default_config bot_not_admin (clock_at 5 63839664000000000) 7 9 burst_system
     = (Inr None,
        \<lparr> rate_limiter = \<lparr> message_history = [(9, 7) \<mapsto> [0, 1, 2, 3, 4, 5]] \<rparr>,
          db = \<lparr> user_violations = [(1, rate_limit_violation 7 9 63839664000000001 60)],
                 sqlite_sequence = 1 \<rparr>,
          bot_calls = [GetChatMember 9 7, RestrictChatMember 9 7 63839667600000002] \<rparr>)"
proof -
  let ?clk = "clock_at 5 63839664000000000"
  have h1: "add_message default_config (time_now ?clk) 7 9 (rate_limiter burst_system)
              = (True, \<lparr> message_history = [(9, 7) \<mapsto> [0, 1, 2, 3, 4, 5]] \<rparr>)"
    using add_message_burst by (simp add: clock_at_def burst_system_def)
  have h2: "get_user_violation_count (db burst_system) (utc_lookup ?clk) 7 9 30 = Inr 0"
    using count_empty by (simp add: clock_at_def burst_system_def)
  have h3: "get_mute_duration default_config (0 + 1) = Inr 60"
    by (rule first_rung)
  have h4: "add_violation (db burst_system) (rate_limit_violation 7 9 (utc_record ?clk) 60)
              = Inr (1, \<lparr> user_violations = [(1, rate_limit_violation 7 9 63839664000000001 60)],
                          sqlite_sequence = 1 \<rparr>)"
    using add_first_record by (simp add: clock_at_def burst_system_def)
  have h5: "apply_mute bot_not_admin (utc_mute ?clk) 7 9 60 (bot_calls burst_system)
              = (Inr (MuteFailure ''Bot not admin'' ''alice''),
                 [GetChatMember 9 7, RestrictChatMember 9 7 63839667600000002])"
    using mute_refused by (simp add: clock_at_def burst_system_def)
  show ?thesis
    using handle_message_mute_failure [OF h1 h2 h3 h4 h5, THEN conjunct1]
      add_message_burst count_empty first_rung add_first_record mute_refused
    by simp
qed

text \<open>
  The claim as stated fails in its last part: with a bot that is refused the restriction
  (\<open>Bot not admin\<close>), the sixth message of the burst gives the result \<^verbatim>\<open>None\<close>; this is the same
  value as for a first message that exceeds nothing, and it carries no error description.
\<close>

theorem handle_message_failure_returns_none:
  "fst (handle_message default_config bot_not_admin (clock_at 5 63839664000000000) 7 9 burst_system)
     = Inr None \<and>
   fst (handle_message default_config bot_not_admin (clock_at 5 63839664000000000) 7 9 empty_system)
     = Inr None"
proof -
  have "handle_message default_config bot_not_admin (clock_at 5 63839664000000000) 7 9 burst_system
          = (Inr None,
             \<lparr> rate_limiter = \<lparr> message_history = [(9, 7) \<mapsto> [0, 1, 2, 3, 4, 5]] \<rparr>,
               db = \<lparr> user_violations = [(1, rate_limit_violation 7 9 63839664000000001 60)],
                      sqlite_sequence = 1 \<rparr>,
               bot_calls = [GetChatMember 9 7, RestrictChatMember 9 7 63839667600000002] \<rparr>)"
    using add_message_burst count_empty first_rung add_first_record mute_refused
    by (simp add: handle_message_def clock_at_def burst_system_def rate_limit_violation_def)
  moreover have "fst (handle_message default_config bot_not_admin (clock_at 5 63839664000000000)
                        7 9 empty_system) = Inr None"
    using add_message_first
    by (simp add: handle_message_def clock_at_def empty_system_def)
  ultimately show ?thesis by simp
qed

section \<open>The violation ordinal\<close>

lemma length_filter_split:
  "length (filter P xs) = length (filter (\<lambda>x. P x \<and> Q x) xs) + length (filter (\<lambda>x. P x \<and> \<not> Q x) xs)"
  by (induction xs) auto

lemma violations_since_by_type:
  "1 + violations_since ledger cutoff uid cid
     = spec_rate_limit_ordinal ledger cutoff uid cid
       + other_type_violations_since ledger cutoff uid cid"
proof -
  let ?P = "\<lambda>(rowid :: int, row). user_id row = uid \<and> chat_id row = cid \<and> timestamp row > cutoff"
  let ?Q = "\<lambda>(rowid :: int, row :: UserViolation). violation_type row = ''rate_limit''"
  have a: "(\<lambda>x. ?P x \<and> ?Q x)
             = (\<lambda>(rowid, row). user_id row = uid \<and> chat_id row = cid \<and>
                                violation_type row = ''rate_limit'' \<and> timestamp row > cutoff)"
    by auto
  have b: "(\<lambda>x. ?P x \<and> \<not> ?Q x)
             = (\<lambda>(rowid, row). user_id row = uid \<and> chat_id row = cid \<and>
                                violation_type row \<noteq> ''rate_limit'' \<and> timestamp row > cutoff)"
    by auto
  have "length (filter ?P (user_violations ledger))
          = length (filter (\<lambda>x. ?P x \<and> ?Q x) (user_violations ledger))
            + length (filter (\<lambda>x. ?P x \<and> \<not> ?Q x) (user_violations ledger))"
    by (rule length_filter_split)
  then show ?thesis
    unfolding a b
    by (simp add: violations_since_def spec_rate_limit_ordinal_def other_type_violations_since_def)
qed

lemma get_user_violation_count_eq:
  assumes "minus_days utcnow 30 = Inr cutoff" and "fits_int64 uid" and "fits_int64 cid"
  shows "get_user_violation_count ledger utcnow uid cid 30
           = Inr (violations_since ledger cutoff uid cid)"
  using assms by (simp add: get_user_violation_count_def violations_since_def)

lemma add_violation_accepted:
  assumes "\<not> isl (add_violation ledger v)"
  shows "fits_columns v"
    and "add_violation ledger v
           = Inr (next_rowid ledger,
                  ledger\<lparr>user_violations := user_violations ledger @ [(next_rowid ledger, v)],
                         sqlite_sequence := next_rowid ledger\<rparr>)"
  using assms by (auto simp: add_violation_def Let_def split: if_splits)

lemma apply_mute_cases:
  obtains (raised) e calls1 where "apply_mute tg utcnow uid cid duration calls = (Inl e, calls1)"
  | (success) uname until_date calls1
      where "apply_mute tg utcnow uid cid duration calls = (Inr (MuteSuccess uname until_date), calls1)"
  | (failure) err uname calls1
      where "apply_mute tg utcnow uid cid duration calls = (Inr (MuteFailure err uname), calls1)"
proof (cases "apply_mute tg utcnow uid cid duration calls")
  case (Pair r calls1)
  show ?thesis
  proof (cases r)
    case (Inl e)
    then show ?thesis using Pair raised by simp
  next
    case (Inr m)
    then show ?thesis using Pair success failure by (cases m) simp_all
  qed
qed

text \<open>
  C1, as the code has it. After a detected rate-limit violation the ordinal that chooses the
  mute duration is one plus the number of the actor's records of every type (of type
  \<^verbatim>\<open>manual\<close> as well as \<^verbatim>\<open>rate_limit\<close>) that are newer than the 30-day cutoff: the record that
  \<^verbatim>\<open>handle_message\<close> appends carries \<^verbatim>\<open>get_mute_duration\<close> of that ordinal, a returned result
  reports that ordinal and duration, and the ordinal exceeds the count over \<^verbatim>\<open>rate_limit\<close>
  records alone by the number of the actor's records of other types.
\<close>

theorem handle_message_ordinal_counts_all_types:
  assumes "fst (add_message c (time_now clk) uid cid (rate_limiter sys))"
      and "minus_days (utc_lookup clk) 30 = Inr cutoff"
      and "get_mute_duration c (1 + violations_since (db sys) cutoff uid cid) = Inr duration"
      and "\<not> isl (add_violation (db sys) (rate_limit_violation uid cid (utc_record clk) duration))"
  shows "user_violations (db (snd (handle_message c tg clk uid cid sys)))
           = user_violations (db sys)
               @ [(next_rowid (db sys), rate_limit_violation uid cid (utc_record clk) duration)]
       \<and> (\<forall>res. fst (handle_message c tg clk uid cid sys) = Inr (Some res) \<longrightarrow>
              res_violation_count res = 1 + violations_since (db sys) cutoff uid cid \<and>
              res_mute_duration_minutes res = duration)
       \<and> 1 + violations_since (db sys) cutoff uid cid
           = spec_rate_limit_ordinal (db sys) cutoff uid cid
             + other_type_violations_since (db sys) cutoff uid cid"
proof -
  let ?n = "violations_since (db sys) cutoff uid cid"
  let ?v = "rate_limit_violation uid cid (utc_record clk) duration"
  let ?db1 = "(db sys)\<lparr>user_violations := user_violations (db sys) @ [(next_rowid (db sys), ?v)],
                        sqlite_sequence := next_rowid (db sys)\<rparr>"
  obtain rl1 where h1: "add_message c (time_now clk) uid cid (rate_limiter sys) = (True, rl1)"
    using assms(1) by (cases "add_message c (time_now clk) uid cid (rate_limiter sys)") simp
  have "fits_columns ?v"
    using assms(4) by (rule add_violation_accepted(1))
  then have fits: "fits_int64 uid" "fits_int64 cid"
    by (simp_all add: fits_columns_def rate_limit_violation_def)
  have h2: "get_user_violation_count (db sys) (utc_lookup clk) uid cid 30 = Inr ?n"
    using assms(2) fits by (rule get_user_violation_count_eq)
  have h3: "get_mute_duration c (?n + 1) = Inr duration"
    using assms(3) by (simp add: add.commute)
  have h4: "add_violation (db sys) ?v = Inr (next_rowid (db sys), ?db1)"
    using assms(4) by (rule add_violation_accepted(2))
  have both: "user_violations (db (snd (handle_message c tg clk uid cid sys)))
                = user_violations ?db1
              \<and> (\<forall>res. fst (handle_message c tg clk uid cid sys) = Inr (Some res) \<longrightarrow>
                     res_violation_count res = 1 + ?n \<and> res_mute_duration_minutes res = duration)"
  proof (cases rule: apply_mute_cases [of tg "utc_mute clk" uid cid duration "bot_calls sys"])
    case (raised e calls1)
    then show ?thesis
      using h1 h2 h3 h4 by (simp add: handle_message_def rate_limit_violation_def)
  next
    case (success uname until_date calls1)
    then show ?thesis
      using h1 h2 h3 h4 by (simp add: handle_message_def rate_limit_violation_def Let_def)
  next
    case (failure err uname calls1)
    then show ?thesis
      using h1 h2 h3 h4 by (simp add: handle_message_def rate_limit_violation_def)
  qed
  show ?thesis
    using both violations_since_by_type [of "db sys" cutoff uid cid] by simp
qed

lemma manual_system_eq:
  "manual_system =
     \<lparr> rate_limiter = burst_limiter,
       db = \<lparr> user_violations =
                [(1, \<lparr> vid = None, user_id = 7, chat_id = 9, violation_type = ''manual'',
                       timestamp = 63839000000000001, mute_duration_minutes = 60,
                       is_active = True \<rparr>)],
              sqlite_sequence = 1 \<rparr>,
       bot_calls = [GetChatMember 9 7, RestrictChatMember 9 7 63839003600000002] \<rparr>"
  by (simp add: manual_system_def manual_mute_def burst_system_def clock_at_def
        add_violation_def violates_unique_def next_rowid_def empty_database_def
        fits_columns_def fits_int64_def
        apply_mute_def plus_minutes_def timedelta_def datetime_add_def datetime_max_def
        bot_ok_def Let_def)

lemma cutoff_2024: "minus_days 63839664000000000 30 = Inr 63837072000000000"
  by (simp add: minus_days_def timedelta_def datetime_add_def datetime_max_def)

lemma manual_counted: "violations_since (db manual_system) 63837072000000000 7 9 = 1"
  by (simp add: manual_system_eq violations_since_def)

lemma second_rung: "get_mute_duration default_config 2 = Inr 360"
  by (simp add: get_mute_duration_def py_index_def default_config_def)

lemma mute_granted:
  "apply_mute bot_ok 63839664000000002 7 9 360
     [GetChatMember 9 7, RestrictChatMember 9 7 63839003600000002]
     = (Inr (MuteSuccess ''alice'' 63839685600000002),
        [GetChatMember 9 7, RestrictChatMember 9 7 63839003600000002,
         GetChatMember 9 7, RestrictChatMember 9 7 63839685600000002])"
  by (simp add: apply_mute_def plus_minutes_def timedelta_def datetime_add_def datetime_max_def
        bot_ok_def)

lemma handle_message_after_manual:
  "fst (handle_message default_config bot_ok (clock_at 5 63839664000000000) 7 9 manual_system)
     = Inr (Some \<lparr> res_action = ''mute'', res_user_id = 7, res_chat_id = 9,
                    res_violation_id = 2, res_violation_count = 2,
                    res_mute_duration_minutes = 360, res_username = ''alice'',
                    res_reason = ''Rate limit exceeded'' \<rparr>)"
proof -
  have c: "get_user_violation_count (db manual_system) 63839664000000000 7 9 30 = Inr 1"
    using get_user_violation_count_eq [OF cutoff_2024, of 7 9 "db manual_system"] manual_counted
    by (simp add: fits_int64_def)
  have a: "add_violation (db manual_system)
             \<lparr> vid = None, user_id = 7, chat_id = 9, violation_type = ''rate_limit'',
               timestamp = 63839664000000001, mute_duration_minutes = 360, is_active = True \<rparr>
           = Inr (2, (db manual_system)
                       \<lparr>user_violations := user_violations (db manual_system)
                          @ [(2, \<lparr> vid = None, user_id = 7, chat_id = 9,
                                   violation_type = ''rate_limit'',
                                   timestamp = 63839664000000001, mute_duration_minutes = 360,
                                   is_active = True \<rparr>)],
                        sqlite_sequence := 2\<rparr>)"
    by (simp add: manual_system_eq add_violation_def violates_unique_def next_rowid_def
          fits_columns_def fits_int64_def)
  have r: "rate_limiter manual_system = burst_limiter"
       and b: "bot_calls manual_system = [GetChatMember 9 7, RestrictChatMember 9 7 63839003600000002]"
    by (simp_all add: manual_system_eq)
  show ?thesis
    using add_message_burst c second_rung a mute_granted
    by (simp add: handle_message_def clock_at_def r b)
qed

theorem handle_message_ordinal_counts_all_types_witness:
  "fst (add_message default_config (time_now (clock_at 5 63839664000000000)) 7 9
          (rate_limiter manual_system)) \<and>
   minus_days (utc_lookup (clock_at 5 63839664000000000)) 30 = Inr 63837072000000000 \<and>
   get_mute_duration default_config
     (1 + violations_since (db manual_system) 63837072000000000 7 9) = Inr 360 \<and>
   \<not> isl (add_violation (db manual_system)
            (rate_limit_violation 7 9 (utc_record (clock_at 5 63839664000000000)) 360)) \<and>
   user_violations
     (db (snd (handle_message default_config bot_ok (clock_at 5 63839664000000000) 7 9
                 manual_system)))
     = user_violations (db manual_system)
         @ [(2, rate_limit_violation 7 9 63839664000000001 360)] \<and>
   fst (handle_message default_config bot_ok (clock_at 5 63839664000000000) 7 9 manual_system)
     = Inr (Some \<lparr> res_action = ''mute'', res_user_id = 7, res_chat_id = 9,
                    res_violation_id = 2, res_violation_count = 2,
                    res_mute_duration_minutes = 360, res_username = ''alice'',
                    res_reason = ''Rate limit exceeded'' \<rparr>) \<and>
   spec_rate_limit_ordinal (db manual_system) 63837072000000000 7 9 = 1 \<and>
   other_type_violations_since (db manual_system) 63837072000000000 7 9 = 1"
proof -
  let ?clk = "clock_at 5 63839664000000000"
  have h1: "fst (add_message default_config (time_now ?clk) 7 9 (rate_limiter manual_system))"
    using add_message_burst by (simp add: clock_at_def manual_system_eq)
  have h2: "minus_days (utc_lookup ?clk) 30 = Inr 63837072000000000"
    using cutoff_2024 by (simp add: clock_at_def)
  have h3: "get_mute_duration default_config
              (1 + violations_since (db manual_system) 63837072000000000 7 9) = Inr 360"
    using second_rung by (simp add: manual_counted)
  have h4: "\<not> isl (add_violation (db manual_system)
                      (rate_limit_violation 7 9 (utc_record ?clk) 360))"
    by (simp add: add_violation_def violates_unique_def manual_system_eq rate_limit_violation_def
          clock_at_def next_rowid_def fits_columns_def fits_int64_def)
  have n: "next_rowid (db manual_system) = 2"
    by (simp add: next_rowid_def manual_system_eq)
  have u: "utc_record ?clk = 63839664000000001"
    by (simp add: clock_at_def)
  have s: "spec_rate_limit_ordinal (db manual_system) 63837072000000000 7 9 = 1"
    by (simp add: spec_rate_limit_ordinal_def manual_system_eq)
  have o: "other_type_violations_since (db manual_system) 63837072000000000 7 9 = 1"
    by (simp add: other_type_violations_since_def manual_system_eq)
  have "user_violations
          (db (snd (handle_message default_config bot_ok ?clk 7 9 manual_system)))
          = user_violations (db manual_system)
              @ [(2, rate_limit_violation 7 9 63839664000000001 360)]"
    using handle_message_ordinal_counts_all_types [OF h1 h2 h3 h4, of bot_ok, THEN conjunct1]
    by (simp only: n u)
  then show ?thesis
    using h1 h2 h3 h4 handle_message_after_manual s o by blast
qed

text \<open>
  The claim as stated fails: after one manual mute of actor (7, 9) and no earlier rate-limit
  violation, the first detected rate-limit violation is handled with ordinal 2 and the second
  rung (360 minutes), while the ordinal over \<^verbatim>\<open>rate_limit\<close> records alone is 1 and its rung is 60
  minutes. The manual record is counted.
\<close>

theorem handle_message_counts_manual_record:
  "fst (handle_message default_config bot_ok (clock_at 5 63839664000000000) 7 9 manual_system)
     = Inr (Some \<lparr> res_action = ''mute'', res_user_id = 7, res_chat_id = 9,
                    res_violation_id = 2, res_violation_count = 2,
                    res_mute_duration_minutes = 360, res_username = ''alice'',
                    res_reason = ''Rate limit exceeded'' \<rparr>) \<and>
   spec_rate_limit_ordinal (db manual_system) 63837072000000000 7 9 = 1 \<and>
   get_mute_duration default_config 1 = Inr 60 \<and>
   map (violation_type \<circ> snd) (user_violations (db manual_system)) = [''manual'']"
proof -
  have s: "spec_rate_limit_ordinal (db manual_system) 63837072000000000 7 9 = 1"
    by (simp add: spec_rate_limit_ordinal_def manual_system_eq)
  have m: "map (violation_type \<circ> snd) (user_violations (db manual_system)) = [''manual'']"
    by (simp add: manual_system_eq)
  have f: "get_mute_duration default_config 1 = Inr 60"
    using first_rung by simp
  show ?thesis using handle_message_after_manual s m f by blast
qed

section \<open>The status query\<close>

lemma get_message_count_effect:
  "get_message_count c t uid cid rl
     = (int (length (filter (\<lambda>x. x > t - real_of_int (antiflood_window_seconds c))
                       (history_get (message_history rl) (cid, uid)))),
        rl\<lparr>message_history := (message_history rl)
              ((cid, uid) \<mapsto> filter (\<lambda>x. x > t - real_of_int (antiflood_window_seconds c))
                                (history_get (message_history rl) (cid, uid)))\<rparr>)"
  by (simp add: get_message_count_def history_get_def Let_def)

text \<open>
  C8, as the code has it. \<^verbatim>\<open>get_user_status\<close> leaves the ledger and the log of bot calls as
  they are and leaves every other actor's tracker entry as it is. When it returns a status,
  it has stored under the queried actor's key the actor's timestamps pruned to the window
  (those newer than \<open>now - window_seconds\<close>, none added; the empty list for an actor that had
  no entry), and the reported message count is the length of that list; when the statistics
  raise, the whole state is unchanged.
\<close>

theorem get_user_status_effect:
  "db (snd (get_user_status c clk uid cid sys)) = db sys
   \<and> bot_calls (snd (get_user_status c clk uid cid sys)) = bot_calls sys
   \<and> (\<forall>key. key \<noteq> (cid, uid) \<longrightarrow>
         message_history (rate_limiter (snd (get_user_status c clk uid cid sys))) key
           = message_history (rate_limiter sys) key)
   \<and> (\<forall>status. fst (get_user_status c clk uid cid sys) = Inr status \<longrightarrow>
         message_history (rate_limiter (snd (get_user_status c clk uid cid sys))) (cid, uid)
           = Some (filter (\<lambda>t. t > time_now clk - real_of_int (antiflood_window_seconds c))
                     (history_get (message_history (rate_limiter sys)) (cid, uid)))
         \<and> current_message_count status
             = int (length (filter (\<lambda>t. t > time_now clk - real_of_int (antiflood_window_seconds c))
                              (history_get (message_history (rate_limiter sys)) (cid, uid)))))
   \<and> (\<forall>e. fst (get_user_status c clk uid cid sys) = Inl e \<longrightarrow>
         snd (get_user_status c clk uid cid sys) = sys)"
proof (cases "get_user_stats (db sys) (utc_stats clk) uid cid")
  case (Inl e)
  then show ?thesis by (simp add: get_user_status_def)
next
  case (Inr stats)
  then show ?thesis
    by (simp add: get_user_status_def get_message_count_effect history_get_def)
qed

lemma status_after_burst:
  "get_user_status default_config (clock_at 100 63839664000000000) 7 9 burst_system
     = (Inr \<lparr> status_user_id = 7, status_chat_id = 9, status_total_violations = 0,
               status_last_violation = None, status_is_currently_muted = False,
               current_message_count = 0, is_exempt = False, status_is_admin = False,
               status_is_whitelisted = False \<rparr>,
        \<lparr> rate_limiter = \<lparr> message_history = [(9, 7) \<mapsto> []] \<rparr>,
          db = empty_database, bot_calls = [] \<rparr>)"
proof -
  have s: "get_user_stats empty_database 63839664000000000 7 9
             = Inr \<lparr> stats_user_id = 7, stats_chat_id = 9, total_violations = 0,
                     last_violation = None, is_currently_muted = False \<rparr>"
    by (simp add: get_user_stats_def minus_hours_def timedelta_def datetime_add_def
          datetime_max_def empty_database_def fits_int64_def)
  have w: "antiflood_window_seconds default_config = 10"
    by (simp add: default_config_def)
  have e: "is_exempt_from_rate_limit default_config 7 = False" "is_admin default_config 7 = False"
          "is_whitelisted default_config 7 = False"
    by (simp_all add: is_exempt_from_rate_limit_def is_admin_def is_whitelisted_def
          default_config_def)
  show ?thesis
    using s
    by (simp add: get_user_status_def get_message_count_effect burst_system_def burst_limiter_eq
          clock_at_def history_get_def w e)
qed

theorem get_user_status_effect_witness:
  "fst (get_user_status default_config (clock_at 100 63839664000000000) 7 9 burst_system)
     = Inr \<lparr> status_user_id = 7, status_chat_id = 9, status_total_violations = 0,
              status_last_violation = None, status_is_currently_muted = False,
              current_message_count = 0, is_exempt = False, status_is_admin = False,
              status_is_whitelisted = False \<rparr> \<and>
   (8 :: int, 7 :: int) \<noteq> (9, 7) \<and>
   message_history
     (rate_limiter (snd (get_user_status default_config (clock_at 100 63839664000000000) 7 9
                           burst_system))) (8, 7)
     = message_history (rate_limiter burst_system) (8, 7) \<and>
   message_history
     (rate_limiter (snd (get_user_status default_config (clock_at 100 63839664000000000) 7 9
                           burst_system))) (9, 7)
     = Some (filter (\<lambda>t. t > 100 - 10)
               (history_get (message_history (rate_limiter burst_system)) (9, 7))) \<and>
   db (snd (get_user_status default_config (clock_at 100 63839664000000000) 7 9 burst_system))
     = db burst_system"
proof -
  let ?clk = "clock_at 100 63839664000000000"
  let ?status = "\<lparr> status_user_id = 7, status_chat_id = 9, status_total_violations = 0,
                    status_last_violation = None, status_is_currently_muted = False,
                    current_message_count = 0, is_exempt = False, status_is_admin = False,
                    status_is_whitelisted = False \<rparr>"
  have r: "fst (get_user_status default_config ?clk 7 9 burst_system) = Inr ?status"
    by (simp add: status_after_burst)
  have k: "(8 :: int, 7 :: int) \<noteq> (9, 7)"
    by simp
  have w: "time_now ?clk - real_of_int (antiflood_window_seconds default_config) = 100 - 10"
    by (simp add: clock_at_def default_config_def)
  note eff = get_user_status_effect [of default_config ?clk 7 9 burst_system]
  have other: "message_history
                 (rate_limiter (snd (get_user_status default_config ?clk 7 9 burst_system))) (8, 7)
               = message_history (rate_limiter burst_system) (8, 7)"
    using eff k by blast
  have pruned: "message_history
                  (rate_limiter (snd (get_user_status default_config ?clk 7 9 burst_system)))
                  (9, 7)
                = Some (filter (\<lambda>t. t > time_now ?clk
                                        - real_of_int (antiflood_window_seconds default_config))
                          (history_get (message_history (rate_limiter burst_system)) (9, 7)))"
    using eff r by blast
  have ledger: "db (snd (get_user_status default_config ?clk 7 9 burst_system)) = db burst_system"
    using eff by blast
  show ?thesis
    using r k other pruned ledger unfolding w by blast
qed

text \<open>
  The claim as stated fails. A status query for actor (7, 9) on the system that tracks nobody
  creates an entry for the actor, and the tracked-actor count goes from 0 to 1; a status query
  at t = 100 for the actor whose five timestamps 0, 1, 2, 3, 4 have left the window replaces
  the stored list by the empty list.
\<close>

theorem get_user_status_mutates_tracker:
  "tracked_users (get_stats (rate_limiter empty_system)) = 0 \<and>
   tracked_users
     (get_stats (rate_limiter (snd (get_user_status default_config
                                      (clock_at 0 63839664000000000) 7 9 empty_system)))) = 1 \<and>
   message_history (rate_limiter burst_system) (9, 7) = Some [0, 1, 2, 3, 4] \<and>
   message_history
     (rate_limiter (snd (get_user_status default_config (clock_at 100 63839664000000000) 7 9
                           burst_system))) (9, 7) = Some []"
proof -
  have s: "get_user_stats empty_database 63839664000000000 7 9
             = Inr \<lparr> stats_user_id = 7, stats_chat_id = 9, total_violations = 0,
                     last_violation = None, is_currently_muted = False \<rparr>"
    by (simp add: get_user_stats_def minus_hours_def timedelta_def datetime_add_def
          datetime_max_def empty_database_def fits_int64_def)
  have a: "tracked_users (get_stats (rate_limiter empty_system)) = 0"
    by (simp add: get_stats_def empty_system_def empty_rate_limiter_def)
  have b: "tracked_users
             (get_stats (rate_limiter (snd (get_user_status default_config
                                              (clock_at 0 63839664000000000) 7 9 empty_system)))) = 1"
    using s
    by (simp add: get_user_status_def get_message_count_effect get_stats_def empty_system_def
          empty_rate_limiter_def clock_at_def history_get_def)
  have c: "message_history (rate_limiter burst_system) (9, 7) = Some [0, 1, 2, 3, 4]"
    by (simp add: burst_system_def burst_limiter_eq)
  have d: "message_history
             (rate_limiter (snd (get_user_status default_config (clock_at 100 63839664000000000)
                                   7 9 burst_system))) (9, 7) = Some []"
    by (simp add: status_after_burst)
  show ?thesis using a b c d by blast
qed

section \<open>Constructing the configuration\<close>

















section \<open>The order of the ladder\<close>


section \<open>The empty ladder\<close>




end
